theory Spec2Isabelle
  imports Main "HOL-Library.AList" "HOL-Library.Sublist"
begin

section \<open>Canonical protocol vocabulary\<close>

text \<open>
  Modelled from the spec: the constants of package \<open>types\<close> are declared outside the
  file under verification. Their values are the canonical finish reasons
  (\<open>stop\<close>, \<open>length\<close>, \<open>tool_calls\<close>, \<open>content_filter\<close>) and the canonical message
  roles (\<open>user\<close>, \<open>assistant\<close>, \<open>system\<close>, \<open>tool\<close>, \<open>function\<close>) of the spec.
\<close>

definition FinishReasonStop :: string where
  "FinishReasonStop = ''stop''"

definition FinishReasonLength :: string where
  "FinishReasonLength = ''length''"

definition FinishReasonToolCalls :: string where
  "FinishReasonToolCalls = ''tool_calls''"

definition FinishReasonContentFilter :: string where
  "FinishReasonContentFilter = ''content_filter''"

definition ChatMessageRoleUser :: string where
  "ChatMessageRoleUser = ''user''"

definition ChatMessageRoleAssistant :: string where
  "ChatMessageRoleAssistant = ''assistant''"

definition ChatMessageRoleSystem :: string where
  "ChatMessageRoleSystem = ''system''"

definition ChatMessageRoleTool :: string where
  "ChatMessageRoleTool = ''tool''"

definition ChatMessageRoleFunction :: string where
  "ChatMessageRoleFunction = ''function''"

section \<open>Finish-reason and role normalisation\<close>

text \<open>The \<open>switch\<close> of \<open>stopReasonClaude2OpenAI\<close>, case by case, with its default.\<close>

definition stopReasonClaude2OpenAI :: "string \<Rightarrow> string" where
  "stopReasonClaude2OpenAI reason =
     (if reason = ''end_turn'' \<or> reason = ''stop_sequence'' then FinishReasonStop
      else if reason = ''max_tokens'' then FinishReasonLength
      else if reason = ''tool_use'' then FinishReasonToolCalls
      else if reason = ''refusal'' then FinishReasonContentFilter
      else reason)"

text \<open>The \<open>switch\<close> of \<open>convertRole\<close>: three roles collapse to user, the default is assistant.\<close>

definition convertRole :: "string \<Rightarrow> string" where
  "convertRole role =
     (if role = ChatMessageRoleUser \<or> role = ChatMessageRoleTool
         \<or> role = ChatMessageRoleFunction
      then ChatMessageRoleUser
      else ChatMessageRoleAssistant)"

section \<open>Custom parameter merge engine\<close>

text \<open>
  A Go \<open>interface{}\<close> holding decoded JSON. The code only ever tests a value for being
  a \<open>bool\<close>, a \<open>string\<close> or a \<open>map[string]interface{}\<close>; numbers are never inspected,
  so their carrier is a type parameter. A Go map is an association list: lookup is
  \<open>map_of\<close>, assignment \<open>m[k] = v\<close> is \<open>AList.update\<close>, and a well-formed map has
  distinct keys.
\<close>

datatype 'n jvalue =
    JNull
  | JBool bool
  | JNum 'n
  | JStr string
  | JArr "'n jvalue list"
  | JObj "(string \<times> 'n jvalue) list"

type_synonym 'n jmap = "(string \<times> 'n jvalue) list"

text \<open>\<open>customParams["overwrite"]\<close> asserted to \<open>bool\<close>; anything else leaves the default.\<close>

definition shouldOverwrite :: "'n jmap \<Rightarrow> bool" where
  "shouldOverwrite customParams =
     (case map_of customParams ''overwrite'' of
        Some (JBool boolValue) \<Rightarrow> boolValue
      | _ \<Rightarrow> False)"

text \<open>\<open>exists && preAdd == true\<close>: an interface equals \<open>true\<close> only when it holds that bool.\<close>

definition preAdd :: "'n jmap \<Rightarrow> bool" where
  "preAdd customParams =
     (case map_of customParams ''pre_add'' of
        Some (JBool b) \<Rightarrow> b
      | _ \<Rightarrow> False)"

definition perModel :: "'n jmap \<Rightarrow> bool" where
  "perModel customParams =
     (case map_of customParams ''per_model'' of
        Some (JBool boolValue) \<Rightarrow> boolValue
      | _ \<Rightarrow> False)"

text \<open>
  The active parameter set \<open>customParamsModel\<close>. It starts as the spec itself and is
  replaced only inside \<open>if perModel\<close>, and there only when \<open>requestMap["model"]\<close> is a
  string: a body whose model field is missing or not a string keeps the whole spec.
\<close>

definition customParamsModel :: "'n jmap \<Rightarrow> 'n jmap \<Rightarrow> 'n jmap" where
  "customParamsModel requestMap customParams =
     (if perModel customParams then
        (case map_of requestMap ''model'' of
           Some (JStr modelValue) \<Rightarrow>
             (case map_of customParams modelValue of
                Some (JObj modelConfig) \<Rightarrow> modelConfig
              | Some _ \<Rightarrow> []
              | None \<Rightarrow> [])
         | _ \<Rightarrow> customParams)
      else customParams)"

definition reservedKey :: "string \<Rightarrow> bool" where
  "reservedKey key =
     (key = ''stream'' \<or> key = ''overwrite'' \<or> key = ''per_model'' \<or> key = ''pre_add'')"

text \<open>
  The \<open>range\<close> loop over the active set, in the order of the list; the body is the
  request map being assigned to.
\<close>

fun mergeLoop :: "bool \<Rightarrow> 'n jmap \<Rightarrow> 'n jmap \<Rightarrow> 'n jmap" where
  "mergeLoop ow requestMap [] = requestMap"
| "mergeLoop ow requestMap ((key, val) # rest) =
     (if reservedKey key then mergeLoop ow requestMap rest
      else if ow then mergeLoop ow (AList.update key val requestMap) rest
      else if map_of requestMap key = None
           then mergeLoop ow (AList.update key val requestMap) rest
      else mergeLoop ow requestMap rest)"

definition mergeCustomParams :: "'n jmap \<Rightarrow> 'n jmap \<Rightarrow> 'n jmap" where
  "mergeCustomParams requestMap customParams =
     (if preAdd customParams then requestMap
      else mergeLoop (shouldOverwrite customParams) requestMap
             (customParamsModel requestMap customParams))"

section \<open>Request URL\<close>

text \<open>Go's \<open>strings.HasPrefix\<close>, \<open>HasSuffix\<close>, \<open>TrimPrefix\<close> and \<open>TrimSuffix\<close>, by slicing.\<close>

definition HasPrefix :: "string \<Rightarrow> string \<Rightarrow> bool" where
  "HasPrefix s pre = (length pre \<le> length s \<and> take (length pre) s = pre)"

definition HasSuffix :: "string \<Rightarrow> string \<Rightarrow> bool" where
  "HasSuffix s suf = (length suf \<le> length s \<and> drop (length s - length suf) s = suf)"

definition TrimPrefix :: "string \<Rightarrow> string \<Rightarrow> string" where
  "TrimPrefix s pre = (if HasPrefix s pre then drop (length pre) s else s)"

definition TrimSuffix :: "string \<Rightarrow> string \<Rightarrow> string" where
  "TrimSuffix s suf = (if HasSuffix s suf then take (length s - length suf) s else s)"

text \<open>
  \<open>GetFullRequestURL\<close>; its first argument is what \<open>p.GetBaseURL()\<close> returned, the
  resolved base URL (that method belongs to the base provider).
\<close>

definition GetFullRequestURL :: "string \<Rightarrow> string \<Rightarrow> string" where
  "GetFullRequestURL resolved requestURL =
     (let baseURL = TrimSuffix resolved ''/'';
          requestURL' =
            (if HasPrefix baseURL ''https://gateway.ai.cloudflare.com''
             then TrimPrefix requestURL ''/v1'' else requestURL)
      in baseURL @ requestURL')"

section \<open>Vendor error decoding\<close>

text \<open>
  Modelled from the spec: the struct declarations \<open>ClaudeError\<close> and
  \<open>types.OpenAIError\<close> are outside the file under verification. The envelope carries a
  top-level type and an inner error with its own type and message; the normalised error
  has the three fields message, type and code.
\<close>

record ClaudeErrorInfo =
  infoType :: string
  infoMessage :: string

record ClaudeError =
  envType :: string
  envErrorInfo :: ClaudeErrorInfo

record OpenAIError =
  errMessage :: string
  errType :: string
  errCode :: string

text \<open>\<open>errorHandle\<close> takes a pointer: \<open>None\<close> is \<open>nil\<close>, on both sides.\<close>

definition errorHandle :: "ClaudeError option \<Rightarrow> OpenAIError option" where
  "errorHandle claudeError =
     (case claudeError of
        None \<Rightarrow> None
      | Some ce \<Rightarrow>
          if envType ce = [] then None
          else Some \<lparr> errMessage = infoMessage (envErrorInfo ce),
                      errType = infoType (envErrorInfo ce),
                      errCode = envType ce \<rparr>)"

text \<open>
  \<open>RequestErrorHandle\<close>; its argument is the outcome of decoding the response body,
  \<open>Inl\<close> the decoder's error.
\<close>

definition RequestErrorHandle :: "string + ClaudeError \<Rightarrow> OpenAIError option" where
  "RequestErrorHandle decoded =
     (case decoded of
        Inl err \<Rightarrow> None
      | Inr claudeError \<Rightarrow> errorHandle (Some claudeError))"

section \<open>LinuxDo OAuth login\<close>

text \<open>
  The handlers talk to the network, the database, the session and the logger. Every
  such call is written to a trace of events, in program order, and what a collaborator
  answers is a parameter (record \<open>env\<close>). The error texts of the source are Chinese
  sentences; each is a constructor here.
\<close>

datatype error =
    ErrInvalidParam
  | ErrConfigIncomplete
  | ErrConnect
  | ErrEmptyAccessToken
  | ErrEmptyUserId
  | ErrLib string

record LinuxDoOAuthResponse =
  AccessToken :: string
  TokenType :: string
  Scope :: string

record LinuxDoUser =
  ldId :: int
  ldUsername :: string
  ldName :: string
  ldAvatarTemplate :: string
  ldActive :: bool
  ldTrustLevel :: int

text \<open>
  Modelled from the spec: \<open>model.User\<close> is declared outside the file under
  verification; these are the fields the handlers read or write.
\<close>

record User =
  userId :: int
  userUsername :: string
  userDisplayName :: string
  userRole :: int
  userStatus :: int
  userLinuxDoId :: string
  userInviterId :: int
  userAvatarUrl :: string

record http_request =
  reqMethod :: string
  reqURL :: string
  reqForm :: "(string \<times> string) list"
  reqHeader :: "(string \<times> string) list"

record http_response =
  StatusCode :: nat
  Body :: string

datatype event =
    HttpDo http_request
  | SysError
  | IsLinuxDoIdAlreadyTaken string
  | FindUserByField string string
  | GetUserIdByAffCode string
  | Insert User int
  | FillUserById int
  | Update User
  | SetupLogin User

record env =
  LinuxDoClientId :: string
  LinuxDoClientSecret :: string
  LinuxDoOAuthEnabled :: bool
  RegisterEnabled :: bool
  RoleCommonUser :: int
  UserStatusEnabled :: int
  newRequest :: "string \<Rightarrow> string \<Rightarrow> string option"
  clientDo :: "http_request \<Rightarrow> string + http_response"
  decodeOAuthResponse :: "string \<Rightarrow> string + LinuxDoOAuthResponse"
  decodeLinuxDoUser :: "string \<Rightarrow> string + LinuxDoUser"
  isLinuxDoIdAlreadyTaken :: "string \<Rightarrow> bool"
  findUserByField :: "string \<Rightarrow> string \<Rightarrow> string + User"
  getUserIdByAffCode :: "string \<Rightarrow> int"
  insertUser :: "User \<Rightarrow> int \<Rightarrow> string + User"
  fillUserById :: "int \<Rightarrow> string + User"
  updateUser :: "User \<Rightarrow> string option"

definition linuxDoTokenEndpoint :: string where
  "linuxDoTokenEndpoint = ''https://connect.linux.do/oauth2/token''"

definition linuxDoUserEndpoint :: string where
  "linuxDoUserEndpoint = ''https://connect.linux.do/api/user''"

text \<open>\<open>strconv.Itoa\<close>: decimal digits, most significant first, a minus sign when negative.\<close>

definition digitChar :: "nat \<Rightarrow> char" where
  "digitChar d = char_of (48 + d)"

fun natDigits :: "nat \<Rightarrow> string" where
  "natDigits n = (if n < 10 then [digitChar n] else natDigits (n div 10) @ [digitChar (n mod 10)])"

definition Itoa :: "int \<Rightarrow> string" where
  "Itoa i = (if i < 0 then CHR ''-'' # natDigits (nat (- i)) else natDigits (nat i))"

text \<open>
  The second half of \<open>getLinuxDoUserInfoByCode\<close>, from \<open>req2\<close> on: the user lookup
  with the bearer token. \<open>evs\<close> is the trace so far.
\<close>

definition fetchLinuxDoUser :: "env \<Rightarrow> string \<Rightarrow> event list \<Rightarrow> (error + LinuxDoUser) \<times> event list" where
  "fetchLinuxDoUser e token evs =
     (case newRequest e ''GET'' linuxDoUserEndpoint of
        Some err \<Rightarrow> (Inl (ErrLib err), evs)
      | None \<Rightarrow>
          let req2 = \<lparr> reqMethod = ''GET'', reqURL = linuxDoUserEndpoint, reqForm = [],
                       reqHeader = [(''Authorization'', ''Bearer '' @ token),
                                    (''Accept'', ''application/json'')] \<rparr>
          in (case clientDo e req2 of
                Inl err \<Rightarrow> (Inl ErrConnect, evs @ [HttpDo req2, SysError])
              | Inr res2 \<Rightarrow>
                  if StatusCode res2 \<noteq> 200 then (Inl ErrConnect, evs @ [HttpDo req2])
                  else (case decodeLinuxDoUser e (Body res2) of
                          Inl err \<Rightarrow> (Inl (ErrLib err), evs @ [HttpDo req2])
                        | Inr linuxDoUser \<Rightarrow>
                            if ldId linuxDoUser = 0
                            then (Inl ErrEmptyUserId, evs @ [HttpDo req2])
                            else (Inr linuxDoUser, evs @ [HttpDo req2]))))"

text \<open>
  \<open>getLinuxDoUserInfoByCode\<close>: the two guards, the token exchange, then the user
  lookup. The result is the Go pair (user, error) as a sum, with the trace of calls.
\<close>

definition getLinuxDoUserInfoByCode :: "env \<Rightarrow> string \<Rightarrow> (error + LinuxDoUser) \<times> event list" where
  "getLinuxDoUserInfoByCode e code =
     (if code = [] then (Inl ErrInvalidParam, [])
      else if LinuxDoClientId e = [] \<or> LinuxDoClientSecret e = []
      then (Inl ErrConfigIncomplete, [])
      else
        (case newRequest e ''POST'' linuxDoTokenEndpoint of
           Some err \<Rightarrow> (Inl (ErrLib err), [])
         | None \<Rightarrow>
             let req = \<lparr> reqMethod = ''POST'', reqURL = linuxDoTokenEndpoint,
                         reqForm = [(''grant_type'', ''authorization_code''),
                                    (''client_id'', LinuxDoClientId e),
                                    (''client_secret'', LinuxDoClientSecret e),
                                    (''code'', code)],
                         reqHeader = [(''Content-Type'', ''application/x-www-form-urlencoded''),
                                      (''Accept'', ''application/json'')] \<rparr>
             in (case clientDo e req of
                   Inl err \<Rightarrow> (Inl ErrConnect, [HttpDo req, SysError])
                 | Inr res \<Rightarrow>
                     if StatusCode res \<noteq> 200 then (Inl ErrConnect, [HttpDo req])
                     else (case decodeOAuthResponse e (Body res) of
                             Inl err \<Rightarrow> (Inl (ErrLib err), [HttpDo req])
                           | Inr oauthResponse \<Rightarrow>
                               if AccessToken oauthResponse = []
                               then (Inl ErrEmptyAccessToken, [HttpDo req])
                               else fetchLinuxDoUser e (AccessToken oauthResponse) [HttpDo req]))))"

text \<open>\<open>getUserByLinuxDo\<close>: \<open>Inr None\<close> is the Go result (nil, nil), no such user.\<close>

definition getUserByLinuxDo :: "env \<Rightarrow> LinuxDoUser \<Rightarrow> (error + User option) \<times> event list" where
  "getUserByLinuxDo e linuxDoUser =
     (let linuxDoId = Itoa (ldId linuxDoUser) in
      if isLinuxDoIdAlreadyTaken e linuxDoId then
        (case findUserByField e ''linuxdo_id'' linuxDoId of
           Inl err \<Rightarrow> (Inl (ErrLib err),
                        [IsLinuxDoIdAlreadyTaken linuxDoId, FindUserByField ''linuxdo_id'' linuxDoId])
         | Inr user \<Rightarrow> (Inr (Some user),
                         [IsLinuxDoIdAlreadyTaken linuxDoId, FindUserByField ''linuxdo_id'' linuxDoId]))
      else (Inr None, [IsLinuxDoIdAlreadyTaken linuxDoId]))"

text \<open>
  The request context: the query string (\<open>c.Query\<close> gives the empty string for a
  missing parameter) and the session, whose values are \<open>interface{}\<close>.
\<close>

datatype session_value = SString string | SInt int | SOther

record gin_context =
  query :: "string \<rightharpoonup> string"
  session :: "string \<rightharpoonup> session_value"

definition Query :: "gin_context \<Rightarrow> string \<Rightarrow> string" where
  "Query c key = (case query c key of None \<Rightarrow> [] | Some v \<Rightarrow> v)"

datatype message =
    MsgStateMismatch
  | MsgOAuthDisabled
  | MsgError error
  | MsgNotEligible
  | MsgRegisterDisabled
  | MsgBanned
  | MsgAlreadyBound
  | MsgBind

record json_response =
  httpStatus :: nat
  success :: bool
  message :: message

text \<open>
  How a handler ends: it wrote a JSON response, it handed over to \<open>setupLogin\<close>, or a
  type assertion without the comma-ok form panicked.
\<close>

datatype outcome = Responded json_response | LoggedIn | Panicked

definition StatusOK :: nat where
  "StatusOK = 200"

definition StatusForbidden :: nat where
  "StatusForbidden = 403"

definition failed :: "message \<Rightarrow> outcome" where
  "failed m = Responded \<lparr> httpStatus = StatusOK, success = False, message = m \<rparr>"

definition LinuxDoBind :: "env \<Rightarrow> gin_context \<Rightarrow> outcome \<times> event list" where
  "LinuxDoBind e c =
     (if \<not> LinuxDoOAuthEnabled e then (failed MsgOAuthDisabled, [])
      else
        (case getLinuxDoUserInfoByCode e (Query c ''code'') of
           (Inl err, evs) \<Rightarrow> (failed (MsgError err), evs)
         | (Inr linuxDoUser, evs) \<Rightarrow>
             let linuxDoId = Itoa (ldId linuxDoUser);
                 evs1 = evs @ [IsLinuxDoIdAlreadyTaken linuxDoId]
             in if isLinuxDoIdAlreadyTaken e linuxDoId then (failed MsgAlreadyBound, evs1)
                else
                  (case session c ''id'' of
                     Some (SInt ident) \<Rightarrow>
                       (case fillUserById e ident of
                          Inl err \<Rightarrow> (failed (MsgError (ErrLib err)), evs1 @ [FillUserById ident])
                        | Inr user0 \<Rightarrow>
                            let user1 = user0\<lparr> userLinuxDoId := linuxDoId \<rparr>;
                                user = (if userAvatarUrl user1 = [] \<and> ldAvatarTemplate linuxDoUser \<noteq> []
                                        then user1\<lparr> userAvatarUrl := ldAvatarTemplate linuxDoUser \<rparr>
                                        else user1);
                                evs2 = evs1 @ [FillUserById ident, Update user]
                            in (case updateUser e user of
                                  Some err \<Rightarrow> (failed (MsgError (ErrLib err)), evs2)
                                | None \<Rightarrow>
                                    (Responded \<lparr> httpStatus = StatusOK, success = True,
                                                 message = MsgBind \<rparr>, evs2)))
                   | _ \<Rightarrow> (Panicked, evs1))))"

text \<open>The join after \<open>if user == nil ... else ...\<close>: the status check and the login.\<close>

definition finishLogin :: "env \<Rightarrow> User \<Rightarrow> event list \<Rightarrow> outcome \<times> event list" where
  "finishLogin e user evs =
     (if userStatus user \<noteq> UserStatusEnabled e then (failed MsgBanned, evs)
      else (LoggedIn, evs @ [SetupLogin user]))"

text \<open>The branch \<open>user == nil\<close>: eligibility, registration switch, the new user record.\<close>

definition registerUser ::
    "env \<Rightarrow> LinuxDoUser \<Rightarrow> string \<Rightarrow> string \<Rightarrow> event list \<Rightarrow> outcome \<times> event list" where
  "registerUser e linuxDoUser linuxDoId affCode evs =
     (if \<not> ldActive linuxDoUser \<or> ldTrustLevel linuxDoUser < 1 then (failed MsgNotEligible, evs)
      else if \<not> RegisterEnabled e then (failed MsgRegisterDisabled, evs)
      else
        let user0 = \<lparr> userId = 0, userUsername = [], userDisplayName = [],
                      userRole = RoleCommonUser e, userStatus = UserStatusEnabled e,
                      userLinuxDoId = linuxDoId, userInviterId = 0, userAvatarUrl = [] \<rparr>;
            inviterId = (if affCode \<noteq> [] then getUserIdByAffCode e affCode else 0);
            evs1 = (if affCode \<noteq> [] then evs @ [GetUserIdByAffCode affCode] else evs);
            user1 = (if inviterId > 0 then user0\<lparr> userInviterId := inviterId \<rparr> else user0);
            user2 = user1\<lparr> userUsername := ''linuxdo_'' @ linuxDoId \<rparr>;
            user3 = (if ldName linuxDoUser \<noteq> []
                     then user2\<lparr> userDisplayName := ldName linuxDoUser \<rparr>
                     else user2\<lparr> userDisplayName := userUsername user2 \<rparr>)
        in (case insertUser e user3 inviterId of
              Inl err \<Rightarrow> (failed (MsgError (ErrLib err)), evs1 @ [Insert user3 inviterId])
            | Inr user \<Rightarrow> finishLogin e user (evs1 @ [Insert user3 inviterId])))"

text \<open>
  \<open>LinuxDoOAuth\<close>. The guard is evaluated left to right with short circuit; its third
  operand asserts the stored state to be a string and panics when it is not.
\<close>

definition LinuxDoOAuth :: "env \<Rightarrow> gin_context \<Rightarrow> outcome \<times> event list" where
  "LinuxDoOAuth e c =
     (let state = Query c ''state'';
          forbidden = (Responded \<lparr> httpStatus = StatusForbidden, success = False,
                                    message = MsgStateMismatch \<rparr>, [])
      in if state = [] \<or> session c ''oauth_state'' = None then forbidden
         else
           (case session c ''oauth_state'' of
              Some (SString stored) \<Rightarrow>
                if state \<noteq> stored then forbidden
                else if session c ''username'' \<noteq> None then LinuxDoBind e c
                else if \<not> LinuxDoOAuthEnabled e then (failed MsgOAuthDisabled, [])
                else
                  (case getLinuxDoUserInfoByCode e (Query c ''code'') of
                     (Inl err, evs) \<Rightarrow> (failed (MsgError err), evs)
                   | (Inr linuxDoUser, evs) \<Rightarrow>
                       (case getUserByLinuxDo e linuxDoUser of
                          (Inl err, evs') \<Rightarrow> (failed (MsgError err), evs @ evs')
                        | (Inr None, evs') \<Rightarrow>
                            registerUser e linuxDoUser (Itoa (ldId linuxDoUser))
                              (Query c ''aff'') (evs @ evs')
                        | (Inr (Some user), evs') \<Rightarrow>
                            finishLogin e (user\<lparr> userLinuxDoId := Itoa (ldId linuxDoUser) \<rparr>)
                              (evs @ evs')))
            | _ \<Rightarrow> (Panicked, [])))"

section \<open>Properties of the normalisation tables\<close>

lemmas types_consts =
  FinishReasonStop_def FinishReasonLength_def FinishReasonToolCalls_def
  FinishReasonContentFilter_def ChatMessageRoleUser_def ChatMessageRoleAssistant_def
  ChatMessageRoleSystem_def ChatMessageRoleTool_def ChatMessageRoleFunction_def

text \<open>
  C5. \<open>stopReasonClaude2OpenAI\<close> is a total function on strings. It sends
  \<open>end_turn\<close> and \<open>stop_sequence\<close> to \<open>stop\<close>, \<open>max_tokens\<close> to \<open>length\<close>,
  \<open>tool_use\<close> to \<open>tool_calls\<close>, \<open>refusal\<close> to \<open>content_filter\<close>, and returns every
  other reason unchanged.
\<close>

theorem stopReasonClaude2OpenAI_table:
  "stopReasonClaude2OpenAI ''end_turn'' = ''stop'' \<and>
   stopReasonClaude2OpenAI ''stop_sequence'' = ''stop'' \<and>
   stopReasonClaude2OpenAI ''max_tokens'' = ''length'' \<and>
   stopReasonClaude2OpenAI ''tool_use'' = ''tool_calls'' \<and>
   stopReasonClaude2OpenAI ''refusal'' = ''content_filter'' \<and>
   (r \<notin> {''end_turn'', ''stop_sequence'', ''max_tokens'', ''tool_use'', ''refusal''}
      \<longrightarrow> stopReasonClaude2OpenAI r = r)"
  by (simp add: stopReasonClaude2OpenAI_def types_consts)

theorem stopReasonClaude2OpenAI_table_witness:
  "''unknown_vendor_reason'' \<notin>
     {''end_turn'', ''stop_sequence'', ''max_tokens'', ''tool_use'', ''refusal''} \<and>
   stopReasonClaude2OpenAI ''unknown_vendor_reason'' = ''unknown_vendor_reason''"
  using stopReasonClaude2OpenAI_table [of "''unknown_vendor_reason''"] by simp

text \<open>
  C6. \<open>convertRole\<close> is a total function on strings. It sends \<open>user\<close>, \<open>tool\<close> and
  \<open>function\<close> to \<open>user\<close> and every other role, \<open>assistant\<close> and \<open>system\<close> among
  them, to \<open>assistant\<close>; there is no third result.
\<close>

theorem convertRole_table:
  "convertRole ''user'' = ''user'' \<and>
   convertRole ''tool'' = ''user'' \<and>
   convertRole ''function'' = ''user'' \<and>
   convertRole ''assistant'' = ''assistant'' \<and>
   convertRole ''system'' = ''assistant'' \<and>
   (r \<notin> {''user'', ''tool'', ''function''} \<longrightarrow> convertRole r = ''assistant'')"
  by (simp add: convertRole_def types_consts)

theorem convertRole_table_witness:
  "''developer'' \<notin> {''user'', ''tool'', ''function''} \<and>
   convertRole ''developer'' = ''assistant''"
  using convertRole_table [of "''developer''"] by simp

section \<open>Properties of the merge engine\<close>

lemma preAdd_iff: "preAdd S \<longleftrightarrow> map_of S ''pre_add'' = Some (JBool True)"
  by (auto simp: preAdd_def split: option.splits jvalue.splits)

lemma shouldOverwrite_iff: "shouldOverwrite S \<longleftrightarrow> map_of S ''overwrite'' = Some (JBool True)"
  by (auto simp: shouldOverwrite_def split: option.splits jvalue.splits)

lemma perModel_iff: "perModel S \<longleftrightarrow> map_of S ''per_model'' = Some (JBool True)"
  by (auto simp: perModel_def split: option.splits jvalue.splits)

text \<open>A reserved key is never assigned by the loop, whatever the mode.\<close>

lemma mergeLoop_reserved:
  "reservedKey k \<Longrightarrow> map_of (mergeLoop ow B xs) k = map_of B k"
proof (induction xs arbitrary: B)
  case Nil
  show ?case by simp
next
  case (Cons x xs)
  obtain key val where x: "x = (key, val)" by (cases x)
  show ?case
  proof (cases "reservedKey key")
    case True
    with Cons x show ?thesis by simp
  next
    case False
    with Cons.prems have "key \<noteq> k" by auto
    then have "map_of (AList.update key val B) k = map_of B k"
      by (simp add: update_conv')
    with Cons.IH [OF Cons.prems, of B] Cons.IH [OF Cons.prems, of "AList.update key val B"] x False
    show ?thesis by (cases ow; simp)
  qed
qed

lemma mergeCustomParams_reserved:
  "reservedKey k \<Longrightarrow> map_of (mergeCustomParams B S) k = map_of B k"
  by (simp add: mergeCustomParams_def mergeLoop_reserved)

text \<open>
  What the loop leaves under every key, for an active set with distinct keys (which a
  Go map always has).
\<close>

lemma mergeLoop_lookup:
  "distinct (map fst xs) \<Longrightarrow>
   map_of (mergeLoop ow B xs) k =
     (if reservedKey k then map_of B k
      else if ow then (case map_of xs k of Some v \<Rightarrow> Some v | None \<Rightarrow> map_of B k)
      else (case map_of B k of Some w \<Rightarrow> Some w | None \<Rightarrow> map_of xs k))"
proof (induction xs arbitrary: B)
  case Nil
  show ?case by (simp split: option.splits)
next
  case (Cons x xs)
  obtain key val where x: "x = (key, val)" by (cases x)
  from Cons.prems x have d: "distinct (map fst xs)" and nk: "map_of xs key = None"
    by (auto simp: map_of_eq_None_iff)
  have upd: "map_of (AList.update key val B) k = (if k = key then Some val else map_of B k)"
    by (simp add: update_conv')
  show ?case
    using nk upd Cons.IH [OF d, of B] Cons.IH [OF d, of "AList.update key val B"]
    by (auto simp: x split: option.splits)
qed

text \<open>
  Go leaves the order of a \<open>range\<close> over a map open. The loop's result, read as a map,
  does not depend on it: two enumerations of the same entries give the same body.
\<close>

lemma mergeLoop_order_irrelevant:
  assumes "distinct (map fst xs)" and "distinct (map fst ys)" and "set xs = set ys"
  shows "map_of (mergeLoop ow B xs) = map_of (mergeLoop ow B ys)"
proof -
  from assms have eq: "map_of xs = map_of ys" by (simp add: map_of_inject_set)
  show ?thesis
  proof
    fix k
    show "map_of (mergeLoop ow B xs) k = map_of (mergeLoop ow B ys) k"
      by (simp only: mergeLoop_lookup [OF assms(1)] mergeLoop_lookup [OF assms(2)] eq)
  qed
qed

text \<open>Without overwrite, a key the body already has keeps its value.\<close>

lemma mergeLoop_keeps:
  "map_of B k = Some w \<Longrightarrow> \<not> ow \<Longrightarrow> map_of (mergeLoop ow B xs) k = Some w"
proof (induction xs arbitrary: B)
  case Nil
  then show ?case by simp
next
  case (Cons x xs)
  obtain key val where x: "x = (key, val)" by (cases x)
  from Cons.prems have "map_of B key = None \<Longrightarrow> map_of (AList.update key val B) k = Some w"
    by (auto simp: update_conv')
  with Cons.IH [of B] Cons.IH [of "AList.update key val B"] Cons.prems
  show ?case by (auto simp: x)
qed

lemma customParamsModel_no_entry:
  assumes "map_of S ''per_model'' = Some (JBool True)"
    and "map_of B ''model'' = Some (JStr m)"
    and "\<forall>cfg. map_of S m \<noteq> Some (JObj cfg)"
  shows "customParamsModel B S = []"
  using assms
  by (auto simp: customParamsModel_def perModel_iff split: option.splits jvalue.splits)

text \<open>
  C1, as amended. Let \<open>k\<close> be a key of the active parameter set that is not reserved,
  with value \<open>v\<close> there. If the spec's overwrite flag is the boolean true and its
  \<open>pre_add\<close> is not the boolean true, the merged body holds \<open>v\<close> under \<open>k\<close>. If the
  overwrite flag is not the boolean true and the body already has \<open>k\<close>, the merged body
  holds the body's original value under \<open>k\<close>.
\<close>

theorem mergeCustomParams_precedence:
  assumes "distinct (map fst (customParamsModel B S))"
    and "map_of (customParamsModel B S) k = Some v"
    and "\<not> reservedKey k"
  shows "(map_of S ''overwrite'' = Some (JBool True) \<and> map_of S ''pre_add'' \<noteq> Some (JBool True)
            \<longrightarrow> map_of (mergeCustomParams B S) k = Some v) \<and>
         (map_of S ''overwrite'' \<noteq> Some (JBool True) \<and> map_of B k \<noteq> None
            \<longrightarrow> map_of (mergeCustomParams B S) k = map_of B k)"
proof (intro conjI impI)
  assume "map_of S ''overwrite'' = Some (JBool True) \<and> map_of S ''pre_add'' \<noteq> Some (JBool True)"
  then have "shouldOverwrite S" "\<not> preAdd S"
    by (simp_all add: shouldOverwrite_iff preAdd_iff)
  with assms show "map_of (mergeCustomParams B S) k = Some v"
    by (simp add: mergeCustomParams_def mergeLoop_lookup)
next
  assume a: "map_of S ''overwrite'' \<noteq> Some (JBool True) \<and> map_of B k \<noteq> None"
  then obtain w where w: "map_of B k = Some w" by auto
  from a have "\<not> shouldOverwrite S" by (simp add: shouldOverwrite_iff)
  with w show "map_of (mergeCustomParams B S) k = map_of B k"
    by (simp add: mergeCustomParams_def mergeLoop_keeps)
qed

theorem mergeCustomParams_precedence_witness:
  "map_of (customParamsModel [(''model'', JStr ''claude-3''), (''top_k'', JNum (1::int))]
      [(''overwrite'', JBool True), (''top_k'', JNum 5)]) ''top_k'' = Some (JNum 5) \<and>
   \<not> reservedKey ''top_k'' \<and>
   map_of (mergeCustomParams [(''model'', JStr ''claude-3''), (''top_k'', JNum (1::int))]
      [(''overwrite'', JBool True), (''top_k'', JNum 5)]) ''top_k'' = Some (JNum 5) \<and>
   map_of (mergeCustomParams [(''model'', JStr ''claude-3''), (''top_k'', JNum (1::int))]
      [(''top_k'', JNum 5)]) ''top_k'' = Some (JNum 1)"
  using mergeCustomParams_precedence
    [of "[(''model'', JStr ''claude-3''), (''top_k'', JNum (1::int))]"
        "[(''overwrite'', JBool True), (''top_k'', JNum 5)]" "''top_k''" "JNum 5"]
    mergeCustomParams_precedence
    [of "[(''model'', JStr ''claude-3''), (''top_k'', JNum (1::int))]"
        "[(''top_k'', JNum 5)]" "''top_k''" "JNum 5"]
  by (simp add: customParamsModel_def perModel_def reservedKey_def)

text \<open>
  C1 as stated fails when the spec carries both \<open>overwrite\<close> and \<open>pre_add\<close> as true:
  \<open>temperature\<close> is a non-reserved key of the active set, the overwrite flag is true,
  and the merged body has no \<open>temperature\<close>.
\<close>

theorem mergeCustomParams_overwrite_counterexample:
  "distinct (map fst (customParamsModel ([] :: int jmap)
      [(''overwrite'', JBool True), (''pre_add'', JBool True), (''temperature'', JNum 1)])) \<and>
   map_of (customParamsModel ([] :: int jmap)
      [(''overwrite'', JBool True), (''pre_add'', JBool True), (''temperature'', JNum 1)])
      ''temperature'' = Some (JNum 1) \<and>
   \<not> reservedKey ''temperature'' \<and>
   shouldOverwrite [(''overwrite'', JBool True), (''pre_add'', JBool True),
      (''temperature'', JNum (1::int))] \<and>
   map_of (mergeCustomParams ([] :: int jmap)
      [(''overwrite'', JBool True), (''pre_add'', JBool True), (''temperature'', JNum 1)])
      ''temperature'' = None"
  by (simp add: mergeCustomParams_def preAdd_def shouldOverwrite_def customParamsModel_def
      perModel_def reservedKey_def)

text \<open>
  The two inner \<open>else\<close> branches: under \<open>per_model\<close>, a body whose model field is a
  string \<open>m\<close> that is not a key of the spec, or whose value there is not a key-value
  map, comes back as it was.
\<close>

lemma mergeCustomParams_string_model_no_entry:
  assumes "map_of S ''per_model'' = Some (JBool True)"
    and "map_of B ''model'' = Some (JStr m)"
    and "map_of S m = None \<or> (\<exists>v. map_of S m = Some v \<and> (\<forall>cfg. v \<noteq> JObj cfg))"
  shows "mergeCustomParams B S = B"
proof -
  from assms(3) have "\<forall>cfg. map_of S m \<noteq> Some (JObj cfg)" by auto
  with assms(1,2) have "customParamsModel B S = []" by (rule customParamsModel_no_entry)
  then show ?thesis by (simp add: mergeCustomParams_def)
qed

text \<open>
  C2. The claim: when the spec's \<open>per_model\<close> flag is true and the body's model field
  has no matching entry in the spec, the merge returns the body with no key added. The
  code does not do so for a body whose model field is missing or is not a string: the
  assertion \<open>requestMap["model"].(string)\<close> fails, that \<open>if\<close> has no \<open>else\<close>, and the
  active set stays the whole spec. A body without a model field receives the spec's
  \<open>top_k\<close>; a body whose model is a number receives the per-model table itself under
  the key \<open>claude-3\<close>.
\<close>

theorem mergeCustomParams_per_model_missing_model:
  "perModel [(''per_model'', JBool True), (''top_k'', JNum (5::int))] \<and>
   map_of ([] :: int jmap) ''model'' = None \<and>
   mergeCustomParams [] [(''per_model'', JBool True), (''top_k'', JNum (5::int))]
     = [(''top_k'', JNum 5)] \<and>
   perModel [(''per_model'', JBool True), (''claude-3'', JObj [(''top_k'', JNum (5::int))])] \<and>
   map_of [(''model'', JNum (3::int))] ''model'' = Some (JNum 3) \<and>
   mergeCustomParams [(''model'', JNum 3)]
       [(''per_model'', JBool True), (''claude-3'', JObj [(''top_k'', JNum (5::int))])]
     = [(''model'', JNum 3), (''claude-3'', JObj [(''top_k'', JNum 5)])]"
  by (simp add: mergeCustomParams_def preAdd_def shouldOverwrite_def customParamsModel_def
      perModel_def reservedKey_def)

text \<open>
  C3. When the spec's \<open>pre_add\<close> field is the boolean true, the merge returns the body
  unchanged: the very same entries, nothing added, removed or modified.
\<close>

theorem mergeCustomParams_pre_add:
  "map_of S ''pre_add'' = Some (JBool True) \<Longrightarrow> mergeCustomParams B S = B"
  by (simp add: mergeCustomParams_def preAdd_iff)

theorem mergeCustomParams_pre_add_witness:
  "map_of [(''pre_add'', JBool True), (''overwrite'', JBool True), (''temperature'', JNum (1::int))]
      ''pre_add'' = Some (JBool True) \<and>
   mergeCustomParams [(''model'', JStr ''claude-3''), (''temperature'', JNum 0)]
      [(''pre_add'', JBool True), (''overwrite'', JBool True), (''temperature'', JNum (1::int))]
     = [(''model'', JStr ''claude-3''), (''temperature'', JNum 0)]"
  using mergeCustomParams_pre_add
    [of "[(''pre_add'', JBool True), (''overwrite'', JBool True), (''temperature'', JNum (1::int))]"
        "[(''model'', JStr ''claude-3''), (''temperature'', JNum 0)]"]
  by simp

text \<open>
  C4. For every body and every spec, whichever active set is chosen, each of the four
  reserved keys \<open>stream\<close>, \<open>overwrite\<close>, \<open>per_model\<close>, \<open>pre_add\<close> has the same value
  in the body, or is absent from it, before and after the merge.
\<close>

theorem mergeCustomParams_skips_reserved:
  "map_of (mergeCustomParams B S) ''stream'' = map_of B ''stream'' \<and>
   map_of (mergeCustomParams B S) ''overwrite'' = map_of B ''overwrite'' \<and>
   map_of (mergeCustomParams B S) ''per_model'' = map_of B ''per_model'' \<and>
   map_of (mergeCustomParams B S) ''pre_add'' = map_of B ''pre_add''"
  by (simp add: mergeCustomParams_reserved reservedKey_def)

section \<open>Properties of the request URL\<close>

text \<open>The slicing definitions agree with the prefix and suffix orders on lists.\<close>

lemma HasPrefix_iff: "HasPrefix s pre \<longleftrightarrow> prefix pre s"
proof
  assume "HasPrefix s pre"
  then have "pre = take (length pre) s" by (simp add: HasPrefix_def)
  then show "prefix pre s" by (metis take_is_prefix)
next
  assume "prefix pre s"
  then show "HasPrefix s pre" by (auto simp: HasPrefix_def prefix_def)
qed

lemma HasSuffix_iff: "HasSuffix s suf \<longleftrightarrow> suffix suf s"
proof
  assume "HasSuffix s suf"
  then have "suf = drop (length s - length suf) s" by (simp add: HasSuffix_def)
  then show "suffix suf s" by (metis suffix_drop)
next
  assume "suffix suf s"
  then show "HasSuffix s suf" by (auto simp: HasSuffix_def suffix_def)
qed

lemma TrimSuffix_slash:
  "TrimSuffix s ''/'' = (if suffix ''/'' s then butlast s else s)"
  by (simp add: TrimSuffix_def HasSuffix_iff butlast_conv_take)

lemma TrimPrefix_v1:
  "TrimPrefix s ''/v1'' = (if prefix ''/v1'' s then drop 3 s else s)"
  by (simp add: TrimPrefix_def HasPrefix_iff numeral_3_eq_3)

text \<open>
  The code tests the trimmed base URL for the gateway prefix. Trimming one trailing
  slash cannot change the answer, since the prefix does not end in a slash.
\<close>

lemma gateway_prefix_butlast:
  assumes "suffix ''/'' s"
  shows "prefix ''https://gateway.ai.cloudflare.com'' (butlast s)
           \<longleftrightarrow> prefix ''https://gateway.ai.cloudflare.com'' s"
proof
  assume "prefix ''https://gateway.ai.cloudflare.com'' (butlast s)"
  moreover have "prefix (butlast s) s" by (simp add: prefixeq_butlast)
  ultimately show "prefix ''https://gateway.ai.cloudflare.com'' s"
    by (rule prefix_order.trans)
next
  assume p: "prefix ''https://gateway.ai.cloudflare.com'' s"
  from assms obtain b where s: "s = b @ ''/''" by (auto simp: suffix_def)
  from p s obtain r where r: "b @ ''/'' = ''https://gateway.ai.cloudflare.com'' @ r"
    by (auto simp: prefix_def)
  have "r \<noteq> []"
  proof
    assume "r = []"
    with r have "last (b @ ''/'') = last ''https://gateway.ai.cloudflare.com''" by simp
    then show False by simp
  qed
  then have "r = butlast r @ [last r]" by simp
  with r have "b @ ''/'' = (''https://gateway.ai.cloudflare.com'' @ butlast r) @ [last r]"
    by (metis append_assoc)
  then have "b = ''https://gateway.ai.cloudflare.com'' @ butlast r" by (metis append1_eq_conv)
  then show "prefix ''https://gateway.ai.cloudflare.com'' (butlast s)"
    using s by (simp add: prefix_def)
qed

text \<open>
  C7. \<open>GetFullRequestURL\<close> returns the resolved base URL, with one trailing slash
  removed when it has one, followed by the endpoint path; when the base URL begins with
  \<open>https://gateway.ai.cloudflare.com\<close> a leading \<open>/v1\<close> is first removed from the
  path. Base \<open>https://api.example.com/\<close> with path \<open>/v1/messages\<close> gives
  \<open>https://api.example.com/v1/messages\<close>, and base
  \<open>https://gateway.ai.cloudflare.com/x/y\<close> with the same path gives
  \<open>https://gateway.ai.cloudflare.com/x/y/messages\<close>.
\<close>

theorem GetFullRequestURL_concat:
  "GetFullRequestURL base path =
     (if suffix ''/'' base then butlast base else base) @
     (if prefix ''https://gateway.ai.cloudflare.com'' base
      then (if prefix ''/v1'' path then drop 3 path else path)
      else path)
   \<and> GetFullRequestURL ''https://api.example.com/'' ''/v1/messages''
       = ''https://api.example.com/v1/messages''
   \<and> GetFullRequestURL ''https://gateway.ai.cloudflare.com/x/y'' ''/v1/messages''
       = ''https://gateway.ai.cloudflare.com/x/y/messages''"
proof (intro conjI)
  show "GetFullRequestURL base path =
     (if suffix ''/'' base then butlast base else base) @
     (if prefix ''https://gateway.ai.cloudflare.com'' base
      then (if prefix ''/v1'' path then drop 3 path else path)
      else path)"
    by (simp add: GetFullRequestURL_def Let_def TrimSuffix_slash TrimPrefix_v1 HasPrefix_iff
        gateway_prefix_butlast del: prefix_code suffix_to_prefix)
  show "GetFullRequestURL ''https://api.example.com/'' ''/v1/messages''
       = ''https://api.example.com/v1/messages''"
    by (simp add: GetFullRequestURL_def Let_def TrimSuffix_def TrimPrefix_def HasPrefix_def
        HasSuffix_def)
  show "GetFullRequestURL ''https://gateway.ai.cloudflare.com/x/y'' ''/v1/messages''
       = ''https://gateway.ai.cloudflare.com/x/y/messages''"
    by (simp add: GetFullRequestURL_def Let_def TrimSuffix_def TrimPrefix_def HasPrefix_def
        HasSuffix_def)
qed

section \<open>Properties of the error-decode hook\<close>

text \<open>
  C8. \<open>RequestErrorHandle\<close> returns no normalised error when decoding the vendor's
  error envelope fails, and none when the decoded envelope's top-level type is the empty
  string. Otherwise it returns the error whose message is the inner error's message,
  whose type is the inner error's type and whose code is the envelope's top-level type.
\<close>

theorem RequestErrorHandle_cases:
  "RequestErrorHandle (Inl err) = None \<and>
   (envType ce = [] \<longrightarrow> RequestErrorHandle (Inr ce) = None) \<and>
   (envType ce \<noteq> [] \<longrightarrow>
      RequestErrorHandle (Inr ce) =
        Some \<lparr> errMessage = infoMessage (envErrorInfo ce),
               errType = infoType (envErrorInfo ce),
               errCode = envType ce \<rparr>)"
  by (simp add: RequestErrorHandle_def errorHandle_def)

theorem RequestErrorHandle_cases_witness:
  "RequestErrorHandle (Inr \<lparr> envType = ''error'',
       envErrorInfo = \<lparr> infoType = ''authentication_error'', infoMessage = ''invalid x-api-key'' \<rparr> \<rparr>)
     = Some \<lparr> errMessage = ''invalid x-api-key'', errType = ''authentication_error'',
              errCode = ''error'' \<rparr> \<and>
   RequestErrorHandle (Inr \<lparr> envType = [],
       envErrorInfo = \<lparr> infoType = ''authentication_error'', infoMessage = ''invalid x-api-key'' \<rparr> \<rparr>)
     = None"
  using RequestErrorHandle_cases
    [of _ "\<lparr> envType = ''error'',
       envErrorInfo = \<lparr> infoType = ''authentication_error'', infoMessage = ''invalid x-api-key'' \<rparr> \<rparr>"]
    RequestErrorHandle_cases
    [of _ "\<lparr> envType = [],
       envErrorInfo = \<lparr> infoType = ''authentication_error'', infoMessage = ''invalid x-api-key'' \<rparr> \<rparr>"]
  by simp

section \<open>Properties of the OAuth handlers\<close>

text \<open>
  C9. When the authorisation code is empty, or the configured client id or client
  secret is empty, \<open>getLinuxDoUserInfoByCode\<close> returns an error and its trace is
  empty: no outbound HTTP request, nor any other call, was made.
\<close>

theorem getLinuxDoUserInfoByCode_fails_fast:
  assumes "code = [] \<or> LinuxDoClientId e = [] \<or> LinuxDoClientSecret e = []"
  shows "getLinuxDoUserInfoByCode e code =
           (Inl (if code = [] then ErrInvalidParam else ErrConfigIncomplete), [])"
  using assms by (auto simp: getLinuxDoUserInfoByCode_def)

text \<open>
  The trace is not empty by construction: once the guards pass and the request object
  is built, the first event is the POST to the token endpoint.
\<close>

lemma fetchLinuxDoUser_trace: "\<exists>evs'. snd (fetchLinuxDoUser e token evs) = evs @ evs'"
  by (auto simp: fetchLinuxDoUser_def Let_def split: option.splits sum.splits)

lemma getLinuxDoUserInfoByCode_reaches_network:
  assumes "code \<noteq> []" and "LinuxDoClientId e \<noteq> []" and "LinuxDoClientSecret e \<noteq> []"
    and "newRequest e ''POST'' linuxDoTokenEndpoint = None"
  shows "\<exists>req evs. snd (getLinuxDoUserInfoByCode e code) = HttpDo req # evs
           \<and> reqURL req = linuxDoTokenEndpoint"
proof -
  define req where "req =
    \<lparr> reqMethod = ''POST'', reqURL = linuxDoTokenEndpoint,
      reqForm = [(''grant_type'', ''authorization_code''),
                 (''client_id'', LinuxDoClientId e),
                 (''client_secret'', LinuxDoClientSecret e),
                 (''code'', code)],
      reqHeader = [(''Content-Type'', ''application/x-www-form-urlencoded''),
                   (''Accept'', ''application/json'')] \<rparr>"
  have f: "\<exists>evs. snd (fetchLinuxDoUser e token [HttpDo req]) = HttpDo req # evs" for token
    using fetchLinuxDoUser_trace [of e token "[HttpDo req]"] by simp
  have "\<exists>evs. snd (getLinuxDoUserInfoByCode e code) = HttpDo req # evs"
    using assms f
    by (simp add: getLinuxDoUserInfoByCode_def Let_def req_def [symmetric] split: sum.splits)
  moreover have "reqURL req = linuxDoTokenEndpoint" by (simp add: req_def)
  ultimately show ?thesis by blast
qed

theorem getLinuxDoUserInfoByCode_fails_fast_witness:
  "getLinuxDoUserInfoByCode
     \<lparr> LinuxDoClientId = ''client'', LinuxDoClientSecret = [],
       LinuxDoOAuthEnabled = True, RegisterEnabled = True,
       RoleCommonUser = 1, UserStatusEnabled = 1,
       newRequest = (\<lambda>m u. None),
       clientDo = (\<lambda>r. Inr \<lparr> StatusCode = 200, Body = [] \<rparr>),
       decodeOAuthResponse = (\<lambda>b. Inl ''EOF''),
       decodeLinuxDoUser = (\<lambda>b. Inl ''EOF''),
       isLinuxDoIdAlreadyTaken = (\<lambda>i. False),
       findUserByField = (\<lambda>f v. Inl ''record not found''),
       getUserIdByAffCode = (\<lambda>a. 0),
       insertUser = (\<lambda>u i. Inr u),
       fillUserById = (\<lambda>i. Inl ''record not found''),
       updateUser = (\<lambda>u. None) \<rparr> ''abc''
   = (Inl ErrConfigIncomplete, [])"
  using getLinuxDoUserInfoByCode_fails_fast
    [of "''abc''" "\<lparr> LinuxDoClientId = ''client'', LinuxDoClientSecret = [],
       LinuxDoOAuthEnabled = True, RegisterEnabled = True,
       RoleCommonUser = 1, UserStatusEnabled = 1,
       newRequest = (\<lambda>m u. None),
       clientDo = (\<lambda>r. Inr \<lparr> StatusCode = 200, Body = [] \<rparr>),
       decodeOAuthResponse = (\<lambda>b. Inl ''EOF''),
       decodeLinuxDoUser = (\<lambda>b. Inl ''EOF''),
       isLinuxDoIdAlreadyTaken = (\<lambda>i. False),
       findUserByField = (\<lambda>f v. Inl ''record not found''),
       getUserIdByAffCode = (\<lambda>a. 0),
       insertUser = (\<lambda>u i. Inr u),
       fillUserById = (\<lambda>i. Inl ''record not found''),
       updateUser = (\<lambda>u. None) \<rparr>"]
  by simp

text \<open>
  C10. When the \<open>state\<close> query parameter is empty, or the session holds no
  \<open>oauth_state\<close>, or the parameter differs from the stored \<open>oauth_state\<close> string,
  \<open>LinuxDoOAuth\<close> answers HTTP 403 and its trace is empty: no token exchange, user
  lookup, user creation or login took place.
\<close>

theorem LinuxDoOAuth_state_guard:
  assumes "Query c ''state'' = [] \<or> session c ''oauth_state'' = None \<or>
           (\<exists>stored. session c ''oauth_state'' = Some (SString stored) \<and> Query c ''state'' \<noteq> stored)"
  shows "LinuxDoOAuth e c =
           (Responded \<lparr> httpStatus = 403, success = False, message = MsgStateMismatch \<rparr>, [])"
  using assms by (auto simp: LinuxDoOAuth_def Let_def StatusForbidden_def)

text \<open>
  With a matching state the handler does go on to the token exchange, so the empty
  trace above is the guard's doing.
\<close>

lemma LinuxDoOAuth_state_ok:
  assumes "Query c ''state'' \<noteq> []" and "session c ''oauth_state'' = Some (SString (Query c ''state''))"
    and "session c ''username'' = None" and "LinuxDoOAuthEnabled e"
    and "Query c ''code'' \<noteq> []" and "LinuxDoClientId e \<noteq> []" and "LinuxDoClientSecret e \<noteq> []"
    and "newRequest e ''POST'' linuxDoTokenEndpoint = None"
  shows "\<exists>req evs. snd (LinuxDoOAuth e c) = HttpDo req # evs \<and> reqURL req = linuxDoTokenEndpoint"
proof -
  from getLinuxDoUserInfoByCode_reaches_network [OF assms(5-8)]
  obtain req evs where t: "snd (getLinuxDoUserInfoByCode e (Query c ''code'')) = HttpDo req # evs"
    and u: "reqURL req = linuxDoTokenEndpoint" by blast
  obtain r where r: "getLinuxDoUserInfoByCode e (Query c ''code'') = (r, HttpDo req # evs)"
    using t by (cases "getLinuxDoUserInfoByCode e (Query c ''code'')") simp
  have "\<exists>evs'. snd (LinuxDoOAuth e c) = (HttpDo req # evs) @ evs'"
    using assms(1-4) r
    by (auto simp: LinuxDoOAuth_def Let_def registerUser_def finishLogin_def failed_def
        split: sum.splits option.splits prod.splits)
  with u show ?thesis by auto
qed

theorem LinuxDoOAuth_state_guard_witness:
  "LinuxDoOAuth
     \<lparr> LinuxDoClientId = ''client'', LinuxDoClientSecret = ''secret'',
       LinuxDoOAuthEnabled = True, RegisterEnabled = True,
       RoleCommonUser = 1, UserStatusEnabled = 1,
       newRequest = (\<lambda>m u. None),
       clientDo = (\<lambda>r. Inr \<lparr> StatusCode = 200, Body = [] \<rparr>),
       decodeOAuthResponse = (\<lambda>b. Inl ''EOF''),
       decodeLinuxDoUser = (\<lambda>b. Inl ''EOF''),
       isLinuxDoIdAlreadyTaken = (\<lambda>i. False),
       findUserByField = (\<lambda>f v. Inl ''record not found''),
       getUserIdByAffCode = (\<lambda>a. 0),
       insertUser = (\<lambda>u i. Inr u),
       fillUserById = (\<lambda>i. Inl ''record not found''),
       updateUser = (\<lambda>u. None) \<rparr>
     \<lparr> query = [''state'' \<mapsto> ''abc'', ''code'' \<mapsto> ''c0de''],
       session = [''oauth_state'' \<mapsto> SString ''xyz''] \<rparr>
   = (Responded \<lparr> httpStatus = 403, success = False, message = MsgStateMismatch \<rparr>, [])"
  using LinuxDoOAuth_state_guard
    [of "\<lparr> query = [''state'' \<mapsto> ''abc'', ''code'' \<mapsto> ''c0de''],
       session = [''oauth_state'' \<mapsto> SString ''xyz''] \<rparr>"
     "\<lparr> LinuxDoClientId = ''client'', LinuxDoClientSecret = ''secret'',
       LinuxDoOAuthEnabled = True, RegisterEnabled = True,
       RoleCommonUser = 1, UserStatusEnabled = 1,
       newRequest = (\<lambda>m u. None),
       clientDo = (\<lambda>r. Inr \<lparr> StatusCode = 200, Body = [] \<rparr>),
       decodeOAuthResponse = (\<lambda>b. Inl ''EOF''),
       decodeLinuxDoUser = (\<lambda>b. Inl ''EOF''),
       isLinuxDoIdAlreadyTaken = (\<lambda>i. False),
       findUserByField = (\<lambda>f v. Inl ''record not found''),
       getUserIdByAffCode = (\<lambda>a. 0),
       insertUser = (\<lambda>u i. Inr u),
       fillUserById = (\<lambda>i. Inl ''record not found''),
       updateUser = (\<lambda>u. None) \<rparr>"]
  by (simp add: Query_def)

text \<open>
  A stored \<open>oauth_state\<close> that is not a string makes the unchecked type assertion
  panic; still nothing has been called by then.
\<close>

lemma LinuxDoOAuth_stored_state_not_string:
  "Query c ''state'' \<noteq> [] \<Longrightarrow> session c ''oauth_state'' = Some (SInt n)
     \<Longrightarrow> LinuxDoOAuth e c = (Panicked, [])"
  by (simp add: LinuxDoOAuth_def Let_def)

end
